theory Spec2Isabelle
  imports Main "HOL-Library.Word"
begin

unbundle bit_operations_syntax

section \<open>The cursor over a byte range (datum)\<close>

text \<open>
  The parsers of \<^verbatim>\<open>libmerc\<close> are written against \<^verbatim>\<open>struct datum\<close>, a pair of
  pointers \<^verbatim>\<open>(data, data_end)\<close> into a buffer it does not own. A datum is modelled by
  the bytes it still views: \<open>Some bs\<close> is a cursor whose range \<^verbatim>\<open>[data, data_end)\<close> holds
  \<open>bs\<close>, and \<open>None\<close> is the null (parse-failed) cursor. Consuming from the front is
  dropping a prefix, so the position of a cursor inside its buffer is the number of bytes
  that are gone.
\<close>

type_synonym byte = "8 word"

type_synonym datum = "byte list option"

text \<open>Modelled from the spec: \<^verbatim>\<open>datum::length()\<close> of \<^verbatim>\<open>datum.h\<close>, which is not among the
  sources: \<^verbatim>\<open>data_end - data\<close>, zero when null or exhausted.\<close>

definition datum_length :: "datum \<Rightarrow> nat" where
  "datum_length d = (case d of None \<Rightarrow> 0 | Some bs \<Rightarrow> length bs)"

text \<open>The bytes a range-for over a datum visits (none for the null cursor).\<close>

definition datum_bytes :: "datum \<Rightarrow> byte list" where
  "datum_bytes d = (case d of None \<Rightarrow> [] | Some bs \<Rightarrow> bs)"

text \<open>Modelled from the spec: \<^verbatim>\<open>datum::set_null()\<close> and \<^verbatim>\<open>datum::is_not_null()\<close> of
  \<^verbatim>\<open>datum.h\<close>: the null state is sticky.\<close>

definition set_null :: "datum \<Rightarrow> datum" where
  "set_null d = None"

definition is_not_null :: "datum \<Rightarrow> bool" where
  "is_not_null d = (d \<noteq> None)"

text \<open>Modelled from the spec: \<^verbatim>\<open>datum::skip(n)\<close> of \<^verbatim>\<open>datum.h\<close>: advances by \<open>n\<close>;
  advancing past the end nulls the cursor; a null cursor stays null.\<close>

definition skip :: "nat \<Rightarrow> datum \<Rightarrow> datum" where
  "skip n d = (case d of None \<Rightarrow> None
               | Some bs \<Rightarrow> if n \<le> length bs then Some (drop n bs) else None)"

text \<open>Modelled from the spec: \<^verbatim>\<open>datum::parse(r, num_bytes)\<close> and the constructor
  \<^verbatim>\<open>datum(datum &r, size_t num_bytes)\<close> of \<^verbatim>\<open>datum.h\<close>: a sub-view of the next
  \<open>num_bytes\<close> bytes of \<open>r\<close>, consumed from \<open>r\<close>; a request longer than what remains
  nulls both. The result is (the new datum, \<open>r\<close> afterwards).\<close>

definition datum_parse :: "datum \<Rightarrow> nat \<Rightarrow> datum \<times> datum" where
  "datum_parse r num_bytes =
     (case r of None \<Rightarrow> (None, None)
      | Some bs \<Rightarrow> if length bs < num_bytes then (None, None)
                   else (Some (take num_bytes bs), Some (drop num_bytes bs)))"

section \<open>tofsee.hpp: the Tofsee initial message\<close>

text \<open>\<^verbatim>\<open>template <size_t bits, typename T> T rotl(T &x)\<close> at \<^verbatim>\<open>T = uint8_t\<close>: the operand
  is promoted to \<^verbatim>\<open>int\<close>, shifted both ways there, and the result is cut back to 8 bits by
  the return type.\<close>

definition rotl :: "nat \<Rightarrow> byte \<Rightarrow> byte" where
  "rotl bits x =
     ucast (push_bit bits (ucast x :: 32 word) OR drop_bit (1 * 8 - bits) (ucast x :: 32 word))"

text \<open>\<^verbatim>\<open>tofsee_initial_message::decrypt\<close>: the loop over the ciphertext, with the running
  byte \<^verbatim>\<open>res\<close> as an argument.\<close>

fun decrypt_loop :: "byte \<Rightarrow> byte list \<Rightarrow> byte list" where
  "decrypt_loop res [] = []"
| "decrypt_loop res (c # cs) = (res XOR rotl 5 c) # decrypt_loop (c XOR 0xc6) cs"

definition decrypt :: "byte list \<Rightarrow> nat \<Rightarrow> byte list" where
  "decrypt ciphertext data_len = decrypt_loop 198 (take data_len ciphertext)"

text \<open>\<^verbatim>\<open>class plaintext : public datum\<close>: the constructor takes the caller's datum by
  reference. The result is (the plaintext datum, the caller's datum afterwards). The base
  datum is default-constructed, hence null, when the length check fails.\<close>

definition plaintext :: "datum \<Rightarrow> datum \<times> datum" where
  "plaintext d =
     (if datum_length d \<noteq> 200 then (None, set_null d)
      else (Some (decrypt (datum_bytes d) 200), d))"

record tofsee_initial_message =
  pt :: datum
  key :: datum
  unknown_1 :: datum
  ipv4 :: datum
  srv_time :: datum
  unknown_2 :: datum

text \<open>The constructor \<^verbatim>\<open>tofsee_initial_message(datum &ct)\<close>: the members are initialised
  in declaration order, each field sliced off the plaintext. The result is (the record,
  the caller's \<^verbatim>\<open>ct\<close> afterwards).\<close>

definition tofsee_initial_message :: "datum \<Rightarrow> tofsee_initial_message \<times> datum" where
  "tofsee_initial_message ct =
     (let (pt0, ct') = plaintext ct;
          (k, pt1) = datum_parse pt0 128;
          (u1, pt2) = datum_parse pt1 16;
          (ip, pt3) = datum_parse pt2 4;
          (st, pt4) = datum_parse pt3 4;
          (u2, pt5) = datum_parse pt4 48
      in (\<lparr>pt = pt5, key = k, unknown_1 = u1, ipv4 = ip, srv_time = st, unknown_2 = u2\<rparr>, ct'))"

text \<open>\<^verbatim>\<open>__builtin_popcount\<close> on an \<^verbatim>\<open>unsigned int\<close>: the number of bits set.\<close>

definition builtin_popcount :: "32 word \<Rightarrow> nat" where
  "builtin_popcount w = length (filter (bit w) [0..<32])"

definition weight_threshold :: nat where
  "weight_threshold = 16"

text \<open>\<^verbatim>\<open>tofsee_initial_message::is_not_empty\<close>; the range-for adds up the population
  counts of the bytes of \<^verbatim>\<open>unknown_1\<close>.\<close>

definition tofsee_is_not_empty :: "tofsee_initial_message \<Rightarrow> bool" where
  "tofsee_is_not_empty m =
     (if \<not> is_not_null (unknown_2 m) then False
      else let weight = sum_list (map (\<lambda>x. builtin_popcount (ucast x)) (datum_bytes (unknown_1 m)))
           in if weight < weight_threshold then True else False)"

section \<open>udp.cc: the classifier of UDP payloads\<close>

text \<open>The tags of \<^verbatim>\<open>enum udp_msg_type\<close> that \<^verbatim>\<open>udp_get_message_type\<close> returns.\<close>

datatype udp_msg_type =
    udp_msg_type_unknown
  | udp_msg_type_dns
  | udp_msg_type_dhcp
  | udp_msg_type_dtls_client_hello
  | udp_msg_type_dtls_server_hello
  | udp_msg_type_wireguard
  | udp_msg_type_quic

text \<open>The mask and value arrays of \<^verbatim>\<open>udp.cc\<close> that the classifier uses.\<close>

definition dtls_client_hello_mask :: "byte list" where
  "dtls_client_hello_mask =
     [0xff, 0xff, 0xf0, 0x00, 0x00, 0x00, 0x00, 0x00,
      0x00, 0x00, 0x00, 0x00, 0x00, 0xff, 0x00, 0x00]"

definition dtls_client_hello_value :: "byte list" where
  "dtls_client_hello_value =
     [0x16, 0xfe, 0xf0, 0x00, 0x00, 0x00, 0x00, 0x00,
      0x00, 0x00, 0x00, 0x00, 0x00, 0x01, 0x00, 0x00]"

definition dtls_server_hello_mask :: "byte list" where
  "dtls_server_hello_mask =
     [0xff, 0xff, 0xf0, 0x00, 0x00, 0x00, 0x00, 0x00,
      0x00, 0x00, 0x00, 0x00, 0x00, 0xff, 0x00, 0x00]"

definition dtls_server_hello_value :: "byte list" where
  "dtls_server_hello_value =
     [0x16, 0xfe, 0xf0, 0x00, 0x00, 0x00, 0x00, 0x00,
      0x00, 0x00, 0x00, 0x00, 0x00, 0x02, 0x00, 0x00]"

definition dhcp_client_value :: "byte list" where
  "dhcp_client_value = [0x01, 0x01, 0x06, 0x00, 0x00, 0x00, 0x00, 0x00]"

definition dhcp_client_mask :: "byte list" where
  "dhcp_client_mask = [0xff, 0xff, 0xff, 0xff, 0x00, 0x00, 0x00, 0x00]"

definition dns_server_mask :: "byte list" where
  "dns_server_mask = [0x00, 0x00, 0xff, 0xff, 0xff, 0x00, 0xff, 0x00]"

definition dns_server_value :: "byte list" where
  "dns_server_value = [0x00, 0x00, 0x81, 0x80, 0x00, 0x00, 0x00, 0x00]"

definition dns_client_mask :: "byte list" where
  "dns_client_mask = [0x00, 0x00, 0xff, 0xff, 0xff, 0x00, 0xff, 0x00]"

definition dns_client_value :: "byte list" where
  "dns_client_value = [0x00, 0x00, 0x01, 0x00, 0x00, 0x00, 0x00, 0x00]"

definition wireguard_mask :: "byte list" where
  "wireguard_mask = [0xff, 0xff, 0xff, 0xff, 0x00, 0x00, 0x00, 0x00]"

definition wireguard_value :: "byte list" where
  "wireguard_value = [0x01, 0x00, 0x00, 0x00, 0x00, 0x00, 0x00, 0x00]"

definition quic_mask :: "byte list" where
  "quic_mask = [0xf0, 0x00, 0xff, 0xff, 0x00, 0x00, 0x00, 0x00]"

definition quic_value :: "byte list" where
  "quic_value = [0xc0, 0x00, 0x00, 0x00, 0x00, 0x00, 0x00, 0x00]"

text \<open>
  The classifier is handed a pointer and a length. The memory behind the pointer is a
  function from offsets to bytes (\<open>udp_data i\<close> is the byte at \<^verbatim>\<open>udp_data + i\<close>), and
  every function that loads from it returns, next to its value, the offsets it loaded, in
  order. The datagram is the bytes at the offsets below \<^verbatim>\<open>len\<close>.
\<close>

type_synonym memory = "nat \<Rightarrow> byte"

text \<open>Modelled from the spec: the comparisons \<^verbatim>\<open>u32_compare_masked_data_to_value\<close> and
  \<^verbatim>\<open>u64_compare_masked_data_to_value\<close> of \<^verbatim>\<open>match.h\<close>, which is not among the sources.
  They take the data pointer, a mask and a value and no length; the candidate matches iff
  \<open>(candidate[i] & mask[i]) == value[i]\<close> for every index of the rule. The first compares
  two 32-bit words, the 8 bytes of the short rules; the second two 64-bit words, the 16
  bytes of the DTLS rules.\<close>

definition compare_masked_data_to_value ::
    "nat \<Rightarrow> memory \<Rightarrow> byte list \<Rightarrow> byte list \<Rightarrow> bool \<times> nat list" where
  "compare_masked_data_to_value width data msk val =
     (list_all (\<lambda>i. data i AND msk ! i = val ! i) [0..<width], [0..<width])"

definition u32_compare_masked_data_to_value ::
    "memory \<Rightarrow> byte list \<Rightarrow> byte list \<Rightarrow> bool \<times> nat list" where
  "u32_compare_masked_data_to_value = compare_masked_data_to_value (2 * 4)"

definition u64_compare_masked_data_to_value ::
    "memory \<Rightarrow> byte list \<Rightarrow> byte list \<Rightarrow> bool \<times> nat list" where
  "u64_compare_masked_data_to_value = compare_masked_data_to_value (2 * 8)"

text \<open>\<^verbatim>\<open>udp_get_message_type\<close>: the length guard, then the chain of comparisons in the
  order of the source. The result is (the tag, the offsets loaded from \<^verbatim>\<open>udp_data\<close>).
  The \<^verbatim>\<open>mercury_debug\<close> line expands to nothing unless \<^verbatim>\<open>DEBUG\<close> is defined.\<close>

definition udp_get_message_type :: "memory \<Rightarrow> nat \<Rightarrow> udp_msg_type \<times> nat list" where
  "udp_get_message_type udp_data len =
     (if len < length dhcp_client_mask then (udp_msg_type_unknown, [])
      else
        let (m1, r1) = u32_compare_masked_data_to_value udp_data dhcp_client_mask dhcp_client_value
        in if m1 then (udp_msg_type_dhcp, r1) else
        let (m2, r2) = u64_compare_masked_data_to_value udp_data
                         dtls_client_hello_mask dtls_client_hello_value
        in if m2 then (udp_msg_type_dtls_client_hello, r1 @ r2) else
        let (m3, r3) = u64_compare_masked_data_to_value udp_data
                         dtls_server_hello_mask dtls_server_hello_value
        in if m3 then (udp_msg_type_dtls_server_hello, r1 @ r2 @ r3) else
        let (m4, r4) = u32_compare_masked_data_to_value udp_data dns_server_mask dns_server_value
        in if m4 then (udp_msg_type_dns, r1 @ r2 @ r3 @ r4) else
        let (m5, r5) = u32_compare_masked_data_to_value udp_data dns_client_mask dns_client_value
        in if m5 then (udp_msg_type_dns, r1 @ r2 @ r3 @ r4 @ r5) else
        let (m6, r6) = u32_compare_masked_data_to_value udp_data wireguard_mask wireguard_value
        in if m6 then (udp_msg_type_wireguard, r1 @ r2 @ r3 @ r4 @ r5 @ r6) else
        let (m7, r7) = u32_compare_masked_data_to_value udp_data quic_mask quic_value
        in if m7 then (udp_msg_type_quic, r1 @ r2 @ r3 @ r4 @ r5 @ r6 @ r7)
        else (udp_msg_type_unknown, r1 @ r2 @ r3 @ r4 @ r5 @ r6 @ r7))"

text \<open>The memory that holds the given bytes at the pointer and zero after them.\<close>

definition bytes_at :: "byte list \<Rightarrow> memory" where
  "bytes_at bs i = (if i < length bs then bs ! i else 0)"

subsection \<open>The dispatcher as the spec words it\<close>

text \<open>A rule is a mask, a value and a tag. The candidate is the datagram: the bytes of the
  memory at the offsets below its length \<open>n\<close>. A candidate of at least as many bytes as
  the mask matches the rule iff every byte of it under the mask, masked, equals the
  value's byte; a shorter candidate never matches. The dispatcher of the spec goes through
  an ordered list of rules and returns the tag of the first match, or unknown.\<close>

definition rule_matches ::
    "memory \<Rightarrow> nat \<Rightarrow> byte list \<times> byte list \<times> udp_msg_type \<Rightarrow> bool" where
  "rule_matches d n r =
     (case r of (msk, val, tag) \<Rightarrow>
        length msk \<le> n \<and> list_all (\<lambda>i. d i AND msk ! i = val ! i) [0..<length msk])"

fun first_match ::
    "memory \<Rightarrow> nat \<Rightarrow> (byte list \<times> byte list \<times> udp_msg_type) list \<Rightarrow> udp_msg_type" where
  "first_match d n [] = udp_msg_type_unknown"
| "first_match d n (r # rs) = (if rule_matches d n r then snd (snd r) else first_match d n rs)"

definition dhcp_client_rule :: "byte list \<times> byte list \<times> udp_msg_type" where
  "dhcp_client_rule = (dhcp_client_mask, dhcp_client_value, udp_msg_type_dhcp)"

definition quic_rule :: "byte list \<times> byte list \<times> udp_msg_type" where
  "quic_rule = (quic_mask, quic_value, udp_msg_type_quic)"

definition udp_rules :: "(byte list \<times> byte list \<times> udp_msg_type) list" where
  "udp_rules =
     [dhcp_client_rule,
      (dtls_client_hello_mask, dtls_client_hello_value, udp_msg_type_dtls_client_hello),
      (dtls_server_hello_mask, dtls_server_hello_value, udp_msg_type_dtls_server_hello),
      (dns_server_mask, dns_server_value, udp_msg_type_dns),
      (dns_client_mask, dns_client_value, udp_msg_type_dns),
      (wireguard_mask, wireguard_value, udp_msg_type_wireguard),
      quic_rule]"

section \<open>mysql.hpp: the MySQL server greeting\<close>

subsection \<open>Reading fields off the cursor\<close>

text \<open>The bytes of an unsigned integer in network order, most significant first.\<close>

definition word_of_bytes :: "byte list \<Rightarrow> 'a::len word" where
  "word_of_bytes bs = foldl (\<lambda>acc b. push_bit 8 acc OR ucast b) 0 bs"

text \<open>Modelled from the spec: \<^verbatim>\<open>encoded<T>(datum &d, bool little_endian = false)\<close> of
  \<^verbatim>\<open>datum.h\<close>, which is not among the sources: construction consumes exactly the width of
  \<^verbatim>\<open>T\<close> from the cursor, nulling it on underflow, and decodes big-endian (network order)
  by default and little-endian when the flag is given. The spec does not state the value
  after an underflow; it is taken to be 0. The result is (the value, the cursor
  afterwards).\<close>

definition encoded :: "nat \<Rightarrow> datum \<Rightarrow> bool \<Rightarrow> 'a::len word \<times> datum" where
  "encoded width d little_endian =
     (case d of None \<Rightarrow> (0, None)
      | Some bs \<Rightarrow>
          if length bs < width then (0, None)
          else (word_of_bytes (if little_endian then rev (take width bs) else take width bs),
                Some (drop width bs)))"

definition encoded_uint8 :: "datum \<Rightarrow> bool \<Rightarrow> byte \<times> datum" where
  "encoded_uint8 = encoded 1"

definition encoded_uint16 :: "datum \<Rightarrow> bool \<Rightarrow> 16 word \<times> datum" where
  "encoded_uint16 = encoded 2"

definition encoded_uint32 :: "datum \<Rightarrow> bool \<Rightarrow> 32 word \<times> datum" where
  "encoded_uint32 = encoded 4"

fun index_of :: "byte \<Rightarrow> byte list \<Rightarrow> nat option" where
  "index_of delim [] = None"
| "index_of delim (b # bs) =
     (if b = delim then Some 0 else map_option Suc (index_of delim bs))"

text \<open>Modelled from the spec: \<^verbatim>\<open>datum::find_delim(uint8_t)\<close> of \<^verbatim>\<open>datum.h\<close>: scans the
  remaining range for the byte and reports its offset, or a negative number when it is
  not found.\<close>

definition find_delim :: "datum \<Rightarrow> byte \<Rightarrow> int" where
  "find_delim d delim =
     (case index_of delim (datum_bytes d) of None \<Rightarrow> - 1 | Some i \<Rightarrow> int i)"

subsection \<open>The name tables\<close>

definition options :: "string list" where
  "options =
     [''LONG_PASSWORD'',
      ''FOUND_ROWS'',
      ''LONG_FLAG'',
      ''CONNECT_WITH_DB'',
      ''NO_SCHEMA'',
      ''COMPRESS'',
      ''ODBC'',
      ''LOCAL_FILES'',
      ''IGNORE_SPACE'',
      ''PROTOCOL_41'',
      ''INTERACTIVE'',
      ''SSL'',
      ''IGNORE_SIGPIPE'',
      ''TRANSACTIONS'',
      ''RESERVED'',
      ''SECURE_CONNECTION'']"

definition extended_options :: "string list" where
  "extended_options =
     [''MULTI_STATEMENTS'',
      ''MULTI_RESULTS'',
      ''PS_MULTI_RESULTS'',
      ''PLUGIN_AUTH'',
      ''CONNECT_ATTRS'',
      ''PLUGIN_AUTH_LENENC_CLIENT_DATA'',
      ''CAN_HANDLE_EXPIRED_PASSWORD'',
      ''SESSION_TRACK'',
      ''DEPRECATE_EOF'',
      ''OPTIONAL_RESULTSET_METADATA'',
      ''ZSTD_COMPRESSION_ALGORITHM'',
      ''QUERY_ATTRIBUTES'',
      ''MULTI_FACTOR_AUTHENTICATION'',
      ''CAPABILITY_EXTENSION'',
      ''SSL_VERIFY_SERVER_CERT'',
      ''REMEMBER_OPTIONS'']"

definition mysql_collations :: "string list" where
  "mysql_collations =
     [''big5_chinese_ci'', ''latin2_czech_cs'', ''dec8_swedish_ci'', ''cp850_general_ci'',
      ''latin1_german1_ci'', ''hp8_english_ci'', ''koi8r_general_ci'',
      ''latin1_swedish_ci'', ''latin2_general_ci'', ''swe7_swedish_ci'',
      ''ascii_general_ci'', ''ujis_japanese_ci'', ''sjis_japanese_ci'',
      ''cp1251_bulgarian_ci'', ''latin1_danish_ci'', ''hebrew_general_ci'',
      ''tis620_thai_ci'', ''euckr_korean_ci'', ''latin7_estonian_cs'',
      ''latin2_hungarian_ci'', ''koi8u_general_ci'', ''cp1251_ukrainian_ci'',
      ''gb2312_chinese_ci'', ''greek_general_ci'', ''cp1250_general_ci'',
      ''latin2_croatian_ci'', ''gbk_chinese_ci'', ''cp1257_lithuanian_ci'',
      ''latin5_turkish_ci'', ''latin1_german2_ci'', ''armscii8_general_ci'',
      ''utf8_general_ci'', ''cp1250_czech_cs'', ''ucs2_general_ci'', ''cp866_general_ci'',
      ''keybcs2_general_ci'', ''macce_general_ci'', ''macroman_general_ci'',
      ''cp852_general_ci'', ''latin7_general_ci'', ''latin7_general_cs'', ''macce_bin'',
      ''cp1250_croatian_ci'', ''utf8mb4_general_ci'', ''utf8mb4_bin'', ''latin1_bin'',
      ''latin1_general_ci'', ''latin1_general_cs'', ''cp1251_bin'', ''cp1251_general_ci'',
      ''cp1251_general_cs'', ''macroman_bin'', ''utf16_general_ci'', ''utf16_bin'',
      ''utf16le_general_ci'', ''cp1256_general_ci'', ''cp1257_bin'', ''cp1257_general_ci'',
      ''utf32_general_ci'', ''utf32_bin'', ''utf16le_bin'', ''binary'', ''armscii8_bin'',
      ''ascii_bin'', ''cp1250_bin'', ''cp1256_bin'', ''cp866_bin'', ''dec8_bin'',
      ''greek_bin'', ''hebrew_bin'', ''hp8_bin'', ''keybcs2_bin'', ''koi8r_bin'',
      ''koi8u_bin'', ''utf8_tolower_ci'', ''latin2_bin'', ''latin5_bin'', ''latin7_bin'',
      ''cp850_bin'', ''cp852_bin'', ''swe7_bin'', ''utf8_bin'', ''big5_bin'',
      ''euckr_bin'', ''gb2312_bin'', ''gbk_bin'', ''sjis_bin'', ''tis620_bin'',
      ''ucs2_bin'', ''ujis_bin'', ''geostd8_general_ci'', ''geostd8_bin'',
      ''latin1_spanish_ci'', ''cp932_japanese_ci'', ''cp932_bin'', ''eucjpms_japanese_ci'',
      ''eucjpms_bin'', ''cp1250_polish_ci'', ''utf16_unicode_ci'', ''utf16_icelandic_ci'',
      ''utf16_latvian_ci'', ''utf16_romanian_ci'', ''utf16_slovenian_ci'',
      ''utf16_polish_ci'', ''utf16_estonian_ci'', ''utf16_spanish_ci'',
      ''utf16_swedish_ci'', ''utf16_turkish_ci'', ''utf16_czech_ci'', ''utf16_danish_ci'',
      ''utf16_lithuanian_ci'', ''utf16_slovak_ci'', ''utf16_spanish2_ci'',
      ''utf16_roman_ci'', ''utf16_persian_ci'', ''utf16_esperanto_ci'',
      ''utf16_hungarian_ci'', ''utf16_sinhala_ci'', ''utf16_german2_ci'',
      ''utf16_croatian_ci'', ''utf16_unicode_520_ci'', ''utf16_vietnamese_ci'',
      ''ucs2_unicode_ci'', ''ucs2_icelandic_ci'', ''ucs2_latvian_ci'',
      ''ucs2_romanian_ci'', ''ucs2_slovenian_ci'', ''ucs2_polish_ci'',
      ''ucs2_estonian_ci'', ''ucs2_spanish_ci'', ''ucs2_swedish_ci'', ''ucs2_turkish_ci'',
      ''ucs2_czech_ci'', ''ucs2_danish_ci'', ''ucs2_lithuanian_ci'', ''ucs2_slovak_ci'',
      ''ucs2_spanish2_ci'', ''ucs2_roman_ci'', ''ucs2_persian_ci'', ''ucs2_esperanto_ci'',
      ''ucs2_hungarian_ci'', ''ucs2_sinhala_ci'', ''ucs2_german2_ci'',
      ''ucs2_croatian_ci'', ''ucs2_unicode_520_ci'', ''ucs2_vietnamese_ci'',
      ''ucs2_general_mysql500_ci'', ''utf32_unicode_ci'', ''utf32_icelandic_ci'',
      ''utf32_latvian_ci'', ''utf32_romanian_ci'', ''utf32_slovenian_ci'',
      ''utf32_polish_ci'', ''utf32_estonian_ci'', ''utf32_spanish_ci'',
      ''utf32_swedish_ci'', ''utf32_turkish_ci'', ''utf32_czech_ci'', ''utf32_danish_ci'',
      ''utf32_lithuanian_ci'', ''utf32_slovak_ci'', ''utf32_spanish2_ci'',
      ''utf32_roman_ci'', ''utf32_persian_ci'', ''utf32_esperanto_ci'',
      ''utf32_hungarian_ci'', ''utf32_sinhala_ci'', ''utf32_german2_ci'',
      ''utf32_croatian_ci'', ''utf32_unicode_520_ci'', ''utf32_vietnamese_ci'',
      ''utf8_unicode_ci'', ''utf8_icelandic_ci'', ''utf8_latvian_ci'',
      ''utf8_romanian_ci'', ''utf8_slovenian_ci'', ''utf8_polish_ci'',
      ''utf8_estonian_ci'', ''utf8_spanish_ci'', ''utf8_swedish_ci'', ''utf8_turkish_ci'',
      ''utf8_czech_ci'', ''utf8_danish_ci'', ''utf8_lithuanian_ci'', ''utf8_slovak_ci'',
      ''utf8_spanish2_ci'', ''utf8_roman_ci'', ''utf8_persian_ci'', ''utf8_esperanto_ci'',
      ''utf8_hungarian_ci'', ''utf8_sinhala_ci'', ''utf8_german2_ci'',
      ''utf8_croatian_ci'', ''utf8_unicode_520_ci'', ''utf8_vietnamese_ci'',
      ''utf8_general_mysql500_ci'', ''utf8mb4_unicode_ci'', ''utf8mb4_icelandic_ci'',
      ''utf8mb4_latvian_ci'', ''utf8mb4_romanian_ci'', ''utf8mb4_slovenian_ci'',
      ''utf8mb4_polish_ci'', ''utf8mb4_estonian_ci'', ''utf8mb4_spanish_ci'',
      ''utf8mb4_swedish_ci'', ''utf8mb4_turkish_ci'', ''utf8mb4_czech_ci'',
      ''utf8mb4_danish_ci'', ''utf8mb4_lithuanian_ci'', ''utf8mb4_slovak_ci'',
      ''utf8mb4_spanish2_ci'', ''utf8mb4_roman_ci'', ''utf8mb4_persian_ci'',
      ''utf8mb4_esperanto_ci'', ''utf8mb4_hungarian_ci'', ''utf8mb4_sinhala_ci'',
      ''utf8mb4_german2_ci'', ''utf8mb4_croatian_ci'', ''utf8mb4_unicode_520_ci'',
      ''utf8mb4_vietnamese_ci'', ''gb18030_chinese_ci'', ''gb18030_bin'',
      ''gb18030_unicode_520_ci'', ''utf8mb4_0900_ai_ci'', ''utf8mb4_de_pb_0900_ai_ci'',
      ''utf8mb4_is_0900_ai_ci'', ''utf8mb4_lv_0900_ai_ci'', ''utf8mb4_ro_0900_ai_ci'',
      ''utf8mb4_sl_0900_ai_ci'', ''utf8mb4_pl_0900_ai_ci'', ''utf8mb4_et_0900_ai_ci'',
      ''utf8mb4_es_0900_ai_ci'', ''utf8mb4_sv_0900_ai_ci'', ''utf8mb4_tr_0900_ai_ci'',
      ''utf8mb4_cs_0900_ai_ci'', ''utf8mb4_da_0900_ai_ci'', ''utf8mb4_lt_0900_ai_ci'',
      ''utf8mb4_sk_0900_ai_ci'', ''utf8mb4_es_trad_0900_ai_ci'', ''utf8mb4_la_0900_ai_ci'',
      ''utf8mb4_eo_0900_ai_ci'', ''utf8mb4_hu_0900_ai_ci'', ''utf8mb4_hr_0900_ai_ci'',
      ''utf8mb4_vi_0900_ai_ci'', ''utf8mb4_0900_as_cs'', ''utf8mb4_de_pb_0900_as_cs'',
      ''utf8mb4_is_0900_as_cs'', ''utf8mb4_lv_0900_as_cs'', ''utf8mb4_ro_0900_as_cs'',
      ''utf8mb4_sl_0900_as_cs'', ''utf8mb4_pl_0900_as_cs'', ''utf8mb4_et_0900_as_cs'',
      ''utf8mb4_es_0900_as_cs'', ''utf8mb4_sv_0900_as_cs'', ''utf8mb4_tr_0900_as_cs'',
      ''utf8mb4_cs_0900_as_cs'', ''utf8mb4_da_0900_as_cs'', ''utf8mb4_lt_0900_as_cs'',
      ''utf8mb4_sk_0900_as_cs'', ''utf8mb4_es_trad_0900_as_cs'', ''utf8mb4_la_0900_as_cs'',
      ''utf8mb4_eo_0900_as_cs'', ''utf8mb4_hu_0900_as_cs'', ''utf8mb4_hr_0900_as_cs'',
      ''utf8mb4_vi_0900_as_cs'', ''utf8mb4_ja_0900_as_cs'', ''utf8mb4_ja_0900_as_cs_ks'',
      ''utf8mb4_0900_as_ci'', ''utf8mb4_ru_0900_ai_ci'', ''utf8mb4_ru_0900_as_cs'',
      ''utf8mb4_zh_0900_as_cs'', ''utf8mb4_0900_bin'']"

definition server_status_str :: "string list" where
  "server_status_str =
     [''STATUS_IN_TRANS'',
      ''STATUS_AUTOCOMMIT'',
      ''MORE_RESULTS_EXISTS'',
      ''QUERY_NO_GOOD_INDEX_USED'',
      ''QUERY_NO_INDEX_USED'',
      ''STATUS_CURSOR_EXISTS'',
      ''STATUS_LAST_ROW_SENT'',
      ''STATUS_DB_DROPPED'',
      ''STATUS_NO_BACKSLASH_ESCAPES'',
      ''STATUS_METADATA_CHANGED'',
      ''QUERY_WAS_SLOW'',
      ''PS_OUT_PARAMS'',
      ''STATUS_IN_TRANS_READONLY'',
      ''SESSION_STATE_CHANGED'',
      ''RESERVED'']"

subsection \<open>The record and its constructor\<close>

text \<open>The members of \<^verbatim>\<open>class mysql_server_greet\<close>. The four flags that have no default
  initialiser are indeterminate until the constructor body assigns them: \<open>None\<close>.\<close>

record mysql_server_greet =
  len :: "32 word"
  pkt_num :: byte
  proto :: byte
  version :: datum
  thread_id :: "32 word"
  salt_1 :: datum
  cap :: "16 word"
  collation :: byte
  srv_status :: "16 word"
  ext_cap :: "16 word"
  auth_plugin_len :: byte
  if_auth_plugin :: "bool option"
  is_ver_less_41 :: "bool option"
  is_mariadb :: "bool option"
  partial_salt :: "bool option"
  salt_2 :: datum
  valid :: bool
  mariadb_ext_cap :: "32 word"
  auth_plugin :: datum

text \<open>The lambda that initialises \<^verbatim>\<open>version\<close>: the bytes up to and including the first
  NUL, or the null datum when there is none. The result is (the version, the cursor
  afterwards).\<close>

definition version_lambda :: "datum \<Rightarrow> datum \<times> datum" where
  "version_lambda pkt =
     (let off = find_delim pkt 0x00
      in if off < 0 then (None, pkt)
         else (Some (take (nat (off + 1)) (datum_bytes pkt)), skip (nat (off + 1)) pkt))"

text \<open>The first six member initialisers: the three length bytes, the packet number, the
  protocol byte and the version. \<open>cursor_after_version\<close> is the cursor they leave. (The
  three reads of the length are operands of one sum; they are taken left to right.)\<close>

definition mysql_server_greet_head ::
    "datum \<Rightarrow> (32 word \<times> byte \<times> byte \<times> datum) \<times> datum" where
  "mysql_server_greet_head pkt0 =
     (let (l0, pkt1) = encoded_uint8 pkt0 False;
          (l1, pkt2) = encoded_uint8 pkt1 False;
          (l2, pkt3) = encoded_uint8 pkt2 False;
          (pn, pkt4) = encoded_uint8 pkt3 False;
          (pr, pkt5) = encoded_uint8 pkt4 False;
          (ver, pkt6) = version_lambda pkt5
      in ((ucast l0 + push_bit 8 (ucast l1) + push_bit 16 (ucast l2), pn, pr, ver), pkt6))"

definition cursor_after_version :: "datum \<Rightarrow> datum" where
  "cursor_after_version pkt0 = snd (mysql_server_greet_head pkt0)"

text \<open>The whole member initialiser list, in declaration order; the members with a default
  initialiser get their default. The result is (the record, the cursor afterwards).\<close>

definition mysql_server_greet_members :: "datum \<Rightarrow> mysql_server_greet \<times> datum" where
  "mysql_server_greet_members pkt0 =
     (let ((ln, pn, pr, ver), pkt6) = mysql_server_greet_head pkt0;
          (tid, pkt7) = encoded_uint32 pkt6 True;
          (s1, pkt8) = datum_parse pkt7 9;
          (cp, pkt9) = encoded_uint16 pkt8 True;
          (co, pkt10) = encoded_uint8 pkt9 False;
          (st, pkt11) = encoded_uint16 pkt10 True;
          (ec, pkt12) = encoded_uint16 pkt11 True;
          (apl, pkt13) = encoded_uint8 pkt12 False
      in (\<lparr>len = ln, pkt_num = pn, proto = pr, version = ver, thread_id = tid, salt_1 = s1,
           cap = cp, collation = co, srv_status = st, ext_cap = ec, auth_plugin_len = apl,
           if_auth_plugin = None, is_ver_less_41 = None, is_mariadb = None,
           partial_salt = None, salt_2 = None, valid = True, mariadb_ext_cap = 0,
           auth_plugin = None\<rparr>, pkt13))"

text \<open>The end of the constructor body: the auth-plugin name, then the check that nothing
  is left.\<close>

definition mysql_server_greet_tail ::
    "mysql_server_greet \<Rightarrow> datum \<Rightarrow> mysql_server_greet \<times> datum" where
  "mysql_server_greet_tail g pkt =
     (let (ap, pkt1) = (if if_auth_plugin g = Some True
                        then datum_parse pkt (unat (auth_plugin_len g) + 1)
                        else (auth_plugin g, pkt));
          g1 = g\<lparr>auth_plugin := ap\<rparr>
      in if datum_length pkt1 \<noteq> 0 then (g1\<lparr>valid := False\<rparr>, pkt1) else (g1, pkt1))"

text \<open>The constructor body. The characters \<^verbatim>\<open>'4'\<close>, \<^verbatim>\<open>'1'\<close> and \<^verbatim>\<open>'5'\<close> are
  \<open>0x34\<close>, \<open>0x31\<close> and \<open>0x35\<close>.\<close>

definition mysql_server_greet_body ::
    "mysql_server_greet \<Rightarrow> datum \<Rightarrow> mysql_server_greet \<times> datum" where
  "mysql_server_greet_body g pkt =
     (if datum_length (version g) < 6 \<or> last (datum_bytes (version g)) \<noteq> 0x00
      then (g\<lparr>valid := False\<rparr>, pkt)
      else
        let iap = (auth_plugin_len g > 0);
            maj_ver = datum_bytes (version g) ! 0;
            min_ver = datum_bytes (version g) ! 2;
            lt41 = (maj_ver < 0x34 \<or> (maj_ver = 0x34 \<and> min_ver < 0x31));
            g1 = g\<lparr>if_auth_plugin := Some iap, is_ver_less_41 := Some lt41\<rparr>
        in if maj_ver < 0x35 \<and> iap then (g1\<lparr>valid := False\<rparr>, pkt)
           else
             let ps = (\<not> lt41);
                 md = (datum_length (version g) > 9 \<or> cap g AND 1 = 0);
                 (mec, pkt1) = (if md then encoded_uint32 (skip 6 pkt) False
                                else (mariadb_ext_cap g, skip 10 pkt));
                 g2 = g1\<lparr>partial_salt := Some ps, is_mariadb := Some md,
                         mariadb_ext_cap := mec\<rparr>
             in if ps
                then let (s2, pkt2) = datum_parse pkt1 13;
                         g3 = g2\<lparr>salt_2 := s2\<rparr>
                     in if datum_length s2 \<noteq> 13 \<or> last (datum_bytes s2) \<noteq> 0x00
                        then (g3\<lparr>valid := False\<rparr>, pkt2)
                        else mysql_server_greet_tail g3 pkt2
                else mysql_server_greet_tail g2 pkt1)"

text \<open>The constructor \<^verbatim>\<open>mysql_server_greet(datum &pkt)\<close>: the member initialisers, then
  the body. The result is (the record, the caller's cursor afterwards).\<close>

definition mysql_server_greet :: "datum \<Rightarrow> mysql_server_greet \<times> datum" where
  "mysql_server_greet pkt =
     (let (g, pkt13) = mysql_server_greet_members pkt in mysql_server_greet_body g pkt13)"

text \<open>\<^verbatim>\<open>mysql_server_greet::is_not_empty\<close>.\<close>

definition mysql_is_not_empty :: "mysql_server_greet \<Rightarrow> bool" where
  "mysql_is_not_empty g = valid g"

subsection \<open>Serialisation\<close>

text \<open>The emitter is outside the sources; \<^verbatim>\<open>write_json\<close> is modelled by the calls it
  makes on it, in order. A read of a C array is the element when the index is inside the
  array and an error otherwise.\<close>

datatype json_call =
    open_object string
  | close_object
  | print_key_json_string string datum
  | print_key_int string int
  | print_key_hex string "16 word"
  | print_key_uint16_hex string "16 word"
  | print_key_string string string
  | print_key_bool string bool
  | open_array string
  | print_string string
  | close_array

datatype mem_error = out_of_bounds_read

definition array_read :: "'a list \<Rightarrow> int \<Rightarrow> mem_error + 'a" where
  "array_read a i =
     (if 0 \<le> i \<and> i < int (length a) then Inr (a ! nat i) else Inl out_of_bounds_read)"

text \<open>Running one part of the serialiser after another: the first error ends it.\<close>

definition and_then ::
    "mem_error + json_call list \<Rightarrow> mem_error + json_call list \<Rightarrow> mem_error + json_call list" where
  "and_then a b =
     (case a of Inl e \<Rightarrow> Inl e
      | Inr xs \<Rightarrow> (case b of Inl e \<Rightarrow> Inl e | Inr ys \<Rightarrow> Inr (xs @ ys)))"

text \<open>The loop \<^verbatim>\<open>for (i = 0; i < 16; i++) if (val & (1UL << i)) print_string(table[i])\<close>
  of the three bit-field writers, over the indices still to visit.\<close>

fun print_flags :: "string list \<Rightarrow> 16 word \<Rightarrow> nat list \<Rightarrow> mem_error + json_call list" where
  "print_flags table val [] = Inr []"
| "print_flags table val (i # rest) =
     (if bit val i
      then (case array_read table (int i) of
              Inl e \<Rightarrow> Inl e
            | Inr name \<Rightarrow> and_then (Inr [print_string name]) (print_flags table val rest))
      else print_flags table val rest)"

text \<open>\<^verbatim>\<open>capabilities::write_json\<close>; the hex value is the two bytes of \<^verbatim>\<open>val\<close> as they
  lie in memory, passed on here as the value.\<close>

definition capabilities_write_json :: "16 word \<Rightarrow> bool \<Rightarrow> mem_error + json_call list" where
  "capabilities_write_json val output_metadata =
     and_then (Inr [print_key_hex ''capabilities_value'' val])
       (if output_metadata
        then and_then (and_then (Inr [open_array ''capabilities_str''])
                         (print_flags options val [0..<16])) (Inr [close_array])
        else Inr [])"

definition extended_capabilities_write_json ::
    "16 word \<Rightarrow> bool \<Rightarrow> mem_error + json_call list" where
  "extended_capabilities_write_json ext_val output_metadata =
     and_then (Inr [print_key_uint16_hex ''extended_capabilities_value'' ext_val])
       (if output_metadata
        then and_then (and_then (Inr [open_array ''ext_capabilities_str''])
                         (print_flags extended_options ext_val [0..<16])) (Inr [close_array])
        else Inr [])"

definition server_status_write_json :: "16 word \<Rightarrow> bool \<Rightarrow> mem_error + json_call list" where
  "server_status_write_json status output_metadata =
     and_then (Inr [print_key_uint16_hex ''server_status_value'' status])
       (if output_metadata
        then and_then (and_then (Inr [open_array ''server_status_str''])
                         (print_flags server_status_str status [0..<16])) (Inr [close_array])
        else Inr [])"

text \<open>Modelled from the spec: \<^verbatim>\<open>datum::trim\<close> and \<^verbatim>\<open>data_buffer::copy\<close>, which are not
  among the sources: the salt is \<^verbatim>\<open>salt_1\<close> without its terminator, or both fragments
  joined, each without its terminator.\<close>

definition assembled_salt :: "mysql_server_greet \<Rightarrow> datum" where
  "assembled_salt g =
     (if partial_salt g = Some False then map_option butlast (salt_1 g)
      else Some (butlast (datum_bytes (salt_1 g)) @ butlast (datum_bytes (salt_2 g))))"

text \<open>\<^verbatim>\<open>mysql_server_greet::write_json\<close>. The collation name is read at
  \<^verbatim>\<open>mysql_collations[collation.value()-1]\<close>, the subtraction done in \<^verbatim>\<open>int\<close>.\<close>

definition write_json :: "mysql_server_greet \<Rightarrow> bool \<Rightarrow> mem_error + json_call list" where
  "write_json g output_metadata =
     (if \<not> valid g then Inr []
      else
        and_then (Inr [open_object ''mysql_server'', print_key_json_string ''version'' (version g)])
       (and_then (Inr (if output_metadata then [print_key_int ''pkt_num'' (uint (pkt_num g))] else []))
       (and_then (Inr [print_key_json_string ''salt'' (assembled_salt g)])
       (and_then (capabilities_write_json (cap g) output_metadata)
       (and_then (case array_read mysql_collations (uint (collation g) - 1) of
                    Inl e \<Rightarrow> Inl e
                  | Inr name \<Rightarrow> Inr [print_key_string ''collation'' name])
       (and_then (server_status_write_json (srv_status g) output_metadata)
       (and_then (extended_capabilities_write_json (ext_cap g) output_metadata)
       (and_then (Inr (if auth_plugin_len g \<noteq> 0
                       then [print_key_int ''auth_plugin_len'' (uint (auth_plugin_len g)),
                             print_key_json_string ''auth_plugin'' (auth_plugin g)]
                       else []))
       (and_then (Inr (if is_mariadb g = Some True
                       then [print_key_bool ''mariadb'' True,
                             print_key_int ''mariadb_extended'' (uint (mariadb_ext_cap g))]
                       else [print_key_bool ''mariadb'' False]))
                 (Inr [close_object]))))))))))"

section \<open>Example inputs\<close>

text \<open>The ciphertext of the true-positive case of \<^verbatim>\<open>tofsee_initial_message::unit_test\<close>.\<close>

definition tim_ciphertext :: "byte list" where
  "tim_ciphertext =
     [0xff, 0xd4, 0x33, 0xb9, 0x69, 0x1a, 0x79, 0x7b,
      0xe1, 0x9b, 0x32, 0xa5, 0x26, 0xd0, 0x03, 0x23,
      0xa2, 0x0f, 0x26, 0xe5, 0x81, 0xb3, 0x0d, 0xe9,
      0xb6, 0xd4, 0x5b, 0xa6, 0xed, 0x4e, 0x8d, 0xe2,
      0x15, 0xf3, 0x67, 0xcb, 0xa4, 0x75, 0xd8, 0x28,
      0x76, 0x9b, 0x30, 0xf1, 0x54, 0x02, 0x6d, 0x2e,
      0xfd, 0x6a, 0x33, 0xfc, 0x94, 0x66, 0x06, 0x0b,
      0x2a, 0xa9, 0x2c, 0x64, 0xc8, 0x69, 0x96, 0x88,
      0xf4, 0x23, 0xe7, 0x5a, 0xfd, 0xd7, 0xa4, 0x09,
      0x5a, 0xe3, 0x71, 0xb7, 0x1e, 0x65, 0x98, 0xba,
      0xbc, 0x00, 0xad, 0xc7, 0xc0, 0xae, 0xe2, 0x2c,
      0x32, 0x57, 0xb4, 0xd0, 0xa2, 0x07, 0x43, 0xbc,
      0x0d, 0x40, 0xd7, 0x7f, 0xe9, 0x71, 0xb7, 0xc3,
      0x3f, 0xa5, 0x49, 0xd8, 0xfe, 0x16, 0x72, 0xc0,
      0x9b, 0x62, 0xdc, 0xa4, 0x3c, 0x4c, 0x2d, 0xd3,
      0x3c, 0x6e, 0x8a, 0xc4, 0xcd, 0x45, 0x2b, 0xdb,
      0xe0, 0x31, 0xbf, 0xcb, 0x60, 0x35, 0x9f, 0xca,
      0x60, 0x34, 0x8f, 0x4a, 0x7c, 0xd5, 0x98, 0xf2,
      0x8b, 0xd3, 0x80, 0xfd, 0xfb, 0xb2, 0xab, 0xdd,
      0xcd, 0x8f, 0x1f, 0x24, 0xfb, 0x6d, 0xfa, 0xf9,
      0x66, 0x41, 0x4b, 0xae, 0xb1, 0xb4, 0x67, 0x01,
      0xc6, 0xcb, 0x5b, 0x2e, 0xd0, 0x0f, 0x66, 0xee,
      0x7f, 0xc7, 0x6f, 0x15, 0xfb, 0x86, 0x0d, 0x2c,
      0x10, 0xea, 0x3c, 0xfb, 0x09, 0x82, 0x6e, 0x3d,
      0x9e, 0x79, 0xc6, 0x34, 0x55, 0xac, 0x13, 0x6d]"

text \<open>Example payloads: the start of a DHCP request; an 8-byte datagram that begins like
  a DTLS record, with zeros behind it in memory; and the same 8-byte datagram with a byte
  1 at offset 13 of the memory behind it.\<close>

definition dhcp_request :: "byte list" where
  "dhcp_request = [0x01, 0x01, 0x06, 0x00, 0x39, 0x03, 0xf3, 0x26]"

definition dtls_like_8 :: "byte list" where
  "dtls_like_8 = [0x16, 0xfe, 0xfd, 0x00, 0x00, 0x00, 0x00, 0x00]"

definition dtls_like_8_then :: "byte list" where
  "dtls_like_8_then = dtls_like_8 @ [0x00, 0x00, 0x00, 0x00, 0x00, 0x01]"

text \<open>Greeting packets. A MySQL 5.7 greeting with no auth plugin (version \<open>5.7.0\<close>,
  capability bit 0 set, collation 8), and the same with the collation byte 0.\<close>

definition mysql57_greeting :: "byte list" where
  "mysql57_greeting =
     [0x33, 0x00, 0x00, 0x00, 0x0a, 0x35, 0x2e, 0x37, 0x2e, 0x30, 0x00, 0x0b,
      0x00, 0x00, 0x00, 0x41, 0x62, 0x63, 0x64, 0x65, 0x66, 0x67, 0x68, 0x00,
      0xff, 0xf7, 0x08, 0x02, 0x00, 0xff, 0x81, 0x00, 0x00, 0x00, 0x00, 0x00,
      0x00, 0x00, 0x00, 0x00, 0x00, 0x00, 0x69, 0x6a, 0x6b, 0x6c, 0x6d, 0x6e,
      0x6f, 0x70, 0x71, 0x72, 0x73, 0x74, 0x00]"

definition mysql57_collation_0 :: "byte list" where
  "mysql57_collation_0 =
     [0x33, 0x00, 0x00, 0x00, 0x0a, 0x35, 0x2e, 0x37, 0x2e, 0x30, 0x00, 0x0b,
      0x00, 0x00, 0x00, 0x41, 0x62, 0x63, 0x64, 0x65, 0x66, 0x67, 0x68, 0x00,
      0xff, 0xf7, 0x00, 0x02, 0x00, 0xff, 0x81, 0x00, 0x00, 0x00, 0x00, 0x00,
      0x00, 0x00, 0x00, 0x00, 0x00, 0x00, 0x69, 0x6a, 0x6b, 0x6c, 0x6d, 0x6e,
      0x6f, 0x70, 0x71, 0x72, 0x73, 0x74, 0x00]"

text \<open>A MariaDB greeting (version \<open>5.5.5-10.4.6-MariaDB\<close>): after the six reserved
  bytes the extended-capability field holds the bytes \<open>07 00 00 00\<close>; the auth plugin is
  \<open>mysql_native_password\<close>.\<close>

definition mariadb_greeting :: "byte list" where
  "mariadb_greeting =
     [0x58, 0x00, 0x00, 0x00, 0x0a, 0x35, 0x2e, 0x35, 0x2e, 0x35, 0x2d, 0x31,
      0x30, 0x2e, 0x34, 0x2e, 0x36, 0x2d, 0x4d, 0x61, 0x72, 0x69, 0x61, 0x44,
      0x42, 0x00, 0x0b, 0x00, 0x00, 0x00, 0x41, 0x62, 0x63, 0x64, 0x65, 0x66,
      0x67, 0x68, 0x00, 0xfe, 0xf7, 0x08, 0x02, 0x00, 0xff, 0x81, 0x15, 0x00,
      0x00, 0x00, 0x00, 0x00, 0x00, 0x07, 0x00, 0x00, 0x00, 0x69, 0x6a, 0x6b,
      0x6c, 0x6d, 0x6e, 0x6f, 0x70, 0x71, 0x72, 0x73, 0x74, 0x00, 0x6d, 0x79,
      0x73, 0x71, 0x6c, 0x5f, 0x6e, 0x61, 0x74, 0x69, 0x76, 0x65, 0x5f, 0x70,
      0x61, 0x73, 0x73, 0x77, 0x6f, 0x72, 0x64, 0x00]"

text \<open>A MySQL 5.7 greeting that declares an auth plugin of 21 bytes and carries its name,
  and the same packet cut after the first 8 bytes of the name.\<close>

definition mysql57_plugin_greeting :: "byte list" where
  "mysql57_plugin_greeting =
     [0x4a, 0x00, 0x00, 0x00, 0x0a, 0x35, 0x2e, 0x37, 0x2e, 0x33, 0x30, 0x00,
      0x0b, 0x00, 0x00, 0x00, 0x41, 0x62, 0x63, 0x64, 0x65, 0x66, 0x67, 0x68,
      0x00, 0xff, 0xf7, 0x08, 0x02, 0x00, 0xff, 0x81, 0x15, 0x00, 0x00, 0x00,
      0x00, 0x00, 0x00, 0x00, 0x00, 0x00, 0x00, 0x69, 0x6a, 0x6b, 0x6c, 0x6d,
      0x6e, 0x6f, 0x70, 0x71, 0x72, 0x73, 0x74, 0x00, 0x6d, 0x79, 0x73, 0x71,
      0x6c, 0x5f, 0x6e, 0x61, 0x74, 0x69, 0x76, 0x65, 0x5f, 0x70, 0x61, 0x73,
      0x73, 0x77, 0x6f, 0x72, 0x64, 0x00]"

definition mysql57_plugin_cut :: "byte list" where
  "mysql57_plugin_cut = take 64 mysql57_plugin_greeting"

text \<open>A greeting whose version string, \<open>5.7\<close> and its NUL, has 4 bytes.\<close>

definition mysql_short_version :: "byte list" where
  "mysql_short_version =
     [0x31, 0x00, 0x00, 0x00, 0x0a, 0x35, 0x2e, 0x37, 0x00, 0x0b, 0x00, 0x00,
      0x00, 0x41, 0x62, 0x63, 0x64, 0x65, 0x66, 0x67, 0x68, 0x00, 0xff, 0xf7,
      0x08, 0x02, 0x00, 0xff, 0x81, 0x00, 0x00, 0x00, 0x00, 0x00, 0x00, 0x00,
      0x00, 0x00, 0x00, 0x00, 0x69, 0x6a, 0x6b, 0x6c, 0x6d, 0x6e, 0x6f, 0x70,
      0x71, 0x72, 0x73, 0x74, 0x00]"

text \<open>A packet that ends with the version string \<open>4.0.30\<close>: every later field is
  missing.\<close>

definition mysql40_only_version :: "byte list" where
  "mysql40_only_version =
     [0x08, 0x00, 0x00, 0x00, 0x0a, 0x34, 0x2e, 0x30, 0x2e, 0x33, 0x30, 0x00]"

section \<open>Properties of the Tofsee parser\<close>

lemma mod8_plus3: "n < 8 \<Longrightarrow> (n + 3) mod 8 = (if 5 \<le> n then n - 5 else n + (3::nat))"
  by (auto simp: mod_if le_mod_geq)

text \<open>The shifts of \<^verbatim>\<open>rotl<5>\<close> on the promoted operand are a rotation of the byte.\<close>

lemma rotl5_word_rotl: "rotl 5 x = word_rotl 5 x"
proof (rule bit_word_eqI)
  fix n assume n: "n < LENGTH(8)"
  have hi: "\<And>k. bit x k \<Longrightarrow> k < 8" by (auto dest: bit_imp_le_length)
  show "bit (rotl 5 x) n = bit (word_rotl 5 x) n"
    using n unfolding rotl_def
    by (auto simp add: bit_simps mod8_plus3 add.commute dest: hi)
qed

lemma decrypt_loop_length: "length (decrypt_loop r cs) = length cs"
  by (induction cs arbitrary: r) auto

lemma decrypt_length: "n \<le> length cs \<Longrightarrow> length (decrypt cs n) = n"
  by (simp add: decrypt_def decrypt_loop_length)

lemma decrypt_loop_nth:
  "i < length cs \<Longrightarrow>
   decrypt_loop r cs ! i = (if i = 0 then r else cs ! (i - 1) XOR 0xc6) XOR rotl 5 (cs ! i)"
proof (induction cs arbitrary: r i)
  case Nil
  then show ?case by simp
next
  case (Cons c cs)
  show ?case
  proof (cases i)
    case 0
    then show ?thesis by simp
  next
    case (Suc j)
    with Cons.prems have "j < length cs" by simp
    from Cons.IH [OF this, of "c XOR 0xc6"] Suc show ?thesis by (cases j) auto
  qed
qed

text \<open>
  C7. For a ciphertext of any length \<open>n\<close>, \<^verbatim>\<open>decrypt\<close> writes \<open>n\<close> plaintext bytes:
  byte 0 is \<open>0xC6 XOR rotl8(c[0], 5)\<close> and byte \<open>i \<ge> 1\<close> is
  \<open>(c[i-1] XOR 0xC6) XOR rotl8(c[i], 5)\<close>, where \<open>rotl8\<close> is the rotation to the left
  within 8 bits (\<^const>\<open>word_rotl\<close>) and the running byte starts at 198 = 0xC6.
\<close>

theorem decrypt_spec:
  "length (decrypt cs (length cs)) = length cs \<and>
   (\<forall>i<length cs. decrypt cs (length cs) ! i =
       (if i = 0 then 0xc6 else cs ! (i - 1) XOR 0xc6) XOR word_rotl 5 (cs ! i))"
  by (simp add: decrypt_def decrypt_loop_length decrypt_loop_nth rotl5_word_rotl)

theorem decrypt_spec_witness:
  "(1::nat) < length [0xff, 0xd4, 0x33 :: byte] \<and>
   decrypt [0xff, 0xd4, 0x33] (length [0xff, 0xd4, 0x33 :: byte]) ! 1
     = (0xff XOR 0xc6) XOR word_rotl 5 0xd4"
proof -
  have lt: "(1::nat) < length [0xff, 0xd4, 0x33 :: byte]" by simp
  show ?thesis
    using lt decrypt_spec [of "[0xff, 0xd4, 0x33]", THEN conjunct2, rule_format, OF lt]
    by simp
qed

lemma builtin_popcount_card: "builtin_popcount (ucast (x :: byte)) = card {n. bit x n}"
proof -
  have "builtin_popcount (ucast x) = card (set (filter (bit (ucast x :: 32 word)) [0..<32]))"
    unfolding builtin_popcount_def by (simp add: distinct_card del: set_filter)
  also have "set (filter (bit (ucast x :: 32 word)) [0..<32]) = {n. bit x n}"
    by (auto simp: bit_simps dest: bit_imp_le_length)
  finally show ?thesis .
qed

lemma datum_parse_Some:
  "n \<le> length bs \<Longrightarrow> datum_parse (Some bs) n = (Some (take n bs), Some (drop n bs))"
  by (simp add: datum_parse_def)

lemma datum_parse_None: "datum_parse None n = (None, None)"
  by (simp add: datum_parse_def)

lemma tofsee_wrong_length:
  "datum_length ct \<noteq> 200 \<Longrightarrow>
   tofsee_initial_message ct =
     (\<lparr>pt = None, key = None, unknown_1 = None, ipv4 = None, srv_time = None,
       unknown_2 = None\<rparr>, None)"
  by (simp add: tofsee_initial_message_def plaintext_def set_null_def datum_parse_None)

lemma tofsee_right_length:
  assumes "datum_length ct = 200"
  shows "tofsee_initial_message ct =
     (\<lparr>pt = Some [],
       key = Some (take 128 (decrypt (datum_bytes ct) 200)),
       unknown_1 = Some (take 16 (drop 128 (decrypt (datum_bytes ct) 200))),
       ipv4 = Some (take 4 (drop 144 (decrypt (datum_bytes ct) 200))),
       srv_time = Some (take 4 (drop 148 (decrypt (datum_bytes ct) 200))),
       unknown_2 = Some (drop 152 (decrypt (datum_bytes ct) 200))\<rparr>, ct)"
proof -
  from assms have len: "length (datum_bytes ct) = 200"
    by (cases ct) (simp_all add: datum_length_def datum_bytes_def)
  have dl: "length (decrypt (datum_bytes ct) 200) = 200"
    using len by (simp add: decrypt_length)
  show ?thesis
    using assms dl
    by (simp add: tofsee_initial_message_def plaintext_def datum_parse_Some)
qed

text \<open>
  C6. For every input datum, \<^verbatim>\<open>is_not_empty()\<close> of the record built from it is true
  exactly when the input is 200 bytes long and the Hamming weight of the 16 decrypted
  bytes of \<^verbatim>\<open>unknown_1\<close> (plaintext offsets 128 to 143), added up, is strictly below 16.
  In particular every input of another length, the null cursor included, is rejected.
\<close>

theorem tofsee_is_not_empty_iff:
  "tofsee_is_not_empty (fst (tofsee_initial_message ct)) \<longleftrightarrow>
     datum_length ct = 200 \<and>
     (\<Sum>b\<leftarrow>take 16 (drop 128 (decrypt (datum_bytes ct) 200)). card {n. bit b n}) < 16"
  by (cases "datum_length ct = 200")
     (simp_all add: tofsee_wrong_length tofsee_right_length tofsee_is_not_empty_def
        is_not_null_def datum_bytes_def weight_threshold_def builtin_popcount_card)

text \<open>The two cases of the unit test in the source: the sample is accepted, 200 bytes of
  \<open>0xff\<close> are not.\<close>

lemma tofsee_unit_test_true_positive:
  "tofsee_is_not_empty (fst (tofsee_initial_message (Some tim_ciphertext)))"
  by code_simp

lemma tofsee_unit_test_garbage:
  "\<not> tofsee_is_not_empty (fst (tofsee_initial_message (Some (replicate 200 0xff))))"
  by code_simp

text \<open>
  C10. The constructor nulls the caller's datum when its length is not 200, and leaves it
  as it was when the length is 200: the fields are sliced off the decrypted copy.
\<close>

theorem tofsee_caller_datum:
  "snd (tofsee_initial_message ct) = (if datum_length ct = 200 then ct else None)"
  by (simp add: tofsee_wrong_length tofsee_right_length)

section \<open>Properties of the UDP classifier\<close>

text \<open>The matcher in the spec's own words: long enough, and equal under the mask at every
  index of the rule.\<close>

lemma rule_matches_iff:
  "rule_matches d n (msk, v, t) \<longleftrightarrow>
     length msk \<le> n \<and> (\<forall>i<length msk. d i AND msk ! i = v ! i)"
  by (simp add: rule_matches_def list_all_iff Ball_def)

text \<open>On a candidate that is long enough for the rule, the comparisons of the code compute
  the match of the spec.\<close>

lemma u32_compare_eq:
  "length msk = 8 \<Longrightarrow> 8 \<le> n \<Longrightarrow>
   u32_compare_masked_data_to_value d msk v = (rule_matches d n (msk, v, t), [0..<8])"
  by (simp add: u32_compare_masked_data_to_value_def compare_masked_data_to_value_def
      rule_matches_def)

lemma u64_compare_eq:
  "length msk = 16 \<Longrightarrow> 16 \<le> n \<Longrightarrow>
   u64_compare_masked_data_to_value d msk v = (rule_matches d n (msk, v, t), [0..<16])"
  by (simp add: u64_compare_masked_data_to_value_def compare_masked_data_to_value_def
      rule_matches_def)

lemma mask_lengths:
  "length dhcp_client_mask = 8" "length dtls_client_hello_mask = 16"
  "length dtls_server_hello_mask = 16" "length dns_server_mask = 8"
  "length dns_client_mask = 8" "length wireguard_mask = 8" "length quic_mask = 8"
  by (simp_all add: dhcp_client_mask_def dtls_client_hello_mask_def dtls_server_hello_mask_def
      dns_server_mask_def dns_client_mask_def wireguard_mask_def quic_mask_def)

lemma udp_compares:
  assumes "16 \<le> n"
  shows "u32_compare_masked_data_to_value d dhcp_client_mask dhcp_client_value =
           (rule_matches d n dhcp_client_rule, [0..<8])"
    and "u64_compare_masked_data_to_value d dtls_client_hello_mask dtls_client_hello_value =
           (rule_matches d n (dtls_client_hello_mask, dtls_client_hello_value,
              udp_msg_type_dtls_client_hello), [0..<16])"
    and "u64_compare_masked_data_to_value d dtls_server_hello_mask dtls_server_hello_value =
           (rule_matches d n (dtls_server_hello_mask, dtls_server_hello_value,
              udp_msg_type_dtls_server_hello), [0..<16])"
    and "u32_compare_masked_data_to_value d dns_server_mask dns_server_value =
           (rule_matches d n (dns_server_mask, dns_server_value, udp_msg_type_dns), [0..<8])"
    and "u32_compare_masked_data_to_value d dns_client_mask dns_client_value =
           (rule_matches d n (dns_client_mask, dns_client_value, udp_msg_type_dns), [0..<8])"
    and "u32_compare_masked_data_to_value d wireguard_mask wireguard_value =
           (rule_matches d n (wireguard_mask, wireguard_value, udp_msg_type_wireguard),
            [0..<8])"
    and "u32_compare_masked_data_to_value d quic_mask quic_value =
           (rule_matches d n quic_rule, [0..<8])"
  using assms
  by (simp_all add: u32_compare_eq u64_compare_eq mask_lengths dhcp_client_rule_def
      quic_rule_def)

text \<open>What the code computes from 8 bytes on: the dispatcher of the spec on a candidate of
  at least 16 bytes, whatever the length of the datagram.\<close>

lemma udp_tag_as_if_16:
  "8 \<le> n \<Longrightarrow> fst (udp_get_message_type d n) = first_match d (max n 16) udp_rules"
  unfolding udp_get_message_type_def udp_rules_def
  by (simp add: mask_lengths udp_compares [where n = "max n 16"] dhcp_client_rule_def quic_rule_def)

text \<open>Where code and spec agree: below 8 bytes, where no rule can match and the guard
  answers unknown, and from 16 bytes on, where every rule fits into the datagram.\<close>

lemma udp_first_match_below_8:
  "n < 8 \<Longrightarrow> fst (udp_get_message_type d n) = first_match d n udp_rules"
  by (simp add: udp_get_message_type_def udp_rules_def dhcp_client_rule_def quic_rule_def
      rule_matches_def mask_lengths)

lemma udp_first_match_from_16:
  "16 \<le> n \<Longrightarrow> fst (udp_get_message_type d n) = first_match d n udp_rules"
  using udp_tag_as_if_16 [of n d] by (simp add: max_def)

text \<open>The DHCP rule comes first: a datagram of at least 8 bytes that matches it is tagged
  DHCP, whatever else it matches.\<close>

lemma udp_dhcp_first:
  assumes "8 \<le> n" and "rule_matches d n dhcp_client_rule"
  shows "fst (udp_get_message_type d n) = udp_msg_type_dhcp"
proof -
  from assms have "rule_matches d (max n 16) dhcp_client_rule"
    by (simp add: rule_matches_def dhcp_client_rule_def mask_lengths)
  with udp_tag_as_if_16 [OF assms(1), of d] show ?thesis
    by (simp add: udp_rules_def dhcp_client_rule_def)
qed

text \<open>No input matches the DHCP rule and the QUIC rule at once: byte 0 would have to be
  \<open>0x01\<close> and to have its high nibble equal to \<open>0xc\<close>.\<close>

lemma dhcp_quic_exclusive:
  "\<not> (rule_matches d n dhcp_client_rule \<and> rule_matches d n quic_rule)"
proof
  assume a: "rule_matches d n dhcp_client_rule \<and> rule_matches d n quic_rule"
  then have 1: "d 0 AND 0xff = 0x01" and 2: "d 0 AND 0xf0 = 0xc0"
    by (auto simp: rule_matches_iff dhcp_client_rule_def quic_rule_def dhcp_client_mask_def
        dhcp_client_value_def quic_mask_def quic_value_def dest: spec[of _ 0])
  from 1 have "bit (d 0 AND 0xff) 7 = bit (1::byte) 7" by simp
  then have n7: "\<not> bit (d 0) 7" by (simp add: bit_simps)
  from 2 have "bit (d 0 AND 0xf0) 7 = bit (0xc0::byte) 7" by simp
  then have "bit (d 0) 7" by (simp add: bit_simps)
  with n7 show False by simp
qed

text \<open>
  C8. The claim: \<^verbatim>\<open>udp_get_message_type\<close> returns the tag of the first rule, in the
  order DHCP client, DTLS client hello, DTLS server hello, DNS server response, DNS client
  query, WireGuard, QUIC, that the datagram matches, and unknown when it matches none. The
  code: the 8-byte datagram \<open>16 fe fd 00 00 00 00 00\<close> is too short for the 16-byte DTLS
  rules and matches none of the 8-byte rules, so the dispatcher of the spec answers
  unknown; with a byte 1 at offset 13 of the memory behind the datagram the code answers
  DTLS client hello.
\<close>

theorem udp_short_datagram_tagged_dtls:
  "map (bytes_at dtls_like_8_then) [0..<8] = dtls_like_8 \<and>
   \<not> rule_matches (bytes_at dtls_like_8_then) 8
        (dtls_client_hello_mask, dtls_client_hello_value, udp_msg_type_dtls_client_hello) \<and>
   first_match (bytes_at dtls_like_8_then) 8 udp_rules = udp_msg_type_unknown \<and>
   fst (udp_get_message_type (bytes_at dtls_like_8_then) 8) = udp_msg_type_dtls_client_hello"
proof -
  have "map (bytes_at dtls_like_8_then) [0..<8] = dtls_like_8"
    by code_simp
  moreover have "\<not> rule_matches (bytes_at dtls_like_8_then) 8
        (dtls_client_hello_mask, dtls_client_hello_value, udp_msg_type_dtls_client_hello)"
    by code_simp
  moreover have "first_match (bytes_at dtls_like_8_then) 8 udp_rules = udp_msg_type_unknown"
    by code_simp
  moreover have "fst (udp_get_message_type (bytes_at dtls_like_8_then) 8)
                   = udp_msg_type_dtls_client_hello"
    by code_simp
  ultimately show ?thesis by blast
qed

text \<open>A DHCP request is tagged DHCP by code and spec alike.\<close>

lemma udp_dhcp_request:
  "rule_matches (bytes_at dhcp_request) 8 dhcp_client_rule \<and>
   fst (udp_get_message_type (bytes_at dhcp_request) 8) = udp_msg_type_dhcp \<and>
   first_match (bytes_at dhcp_request) 8 udp_rules = udp_msg_type_dhcp"
  by code_simp

text \<open>Where the loads stay inside the datagram: below 8 bytes nothing is loaded and the
  tag is unknown; from 16 bytes on every load is below \<^verbatim>\<open>len\<close>.\<close>

lemma udp_short_input:
  "n < 8 \<Longrightarrow> udp_get_message_type d n = (udp_msg_type_unknown, [])"
  by (simp add: udp_get_message_type_def mask_lengths)

lemma udp_reads_within_from_16:
  "16 \<le> n \<Longrightarrow> set (snd (udp_get_message_type d n)) \<subseteq> {0..<n}"
  unfolding udp_get_message_type_def
  by (auto simp add: mask_lengths udp_compares [where n = n])

text \<open>
  C3. The claim: \<^verbatim>\<open>udp_get_message_type\<close> loads only bytes at offsets below \<^verbatim>\<open>len\<close>.
  The code: the guard lets every length from 8 on through, and the DTLS comparisons load
  16 bytes. On the 8-byte datagram \<open>16 fe fd 00 00 00 00 00\<close> offset 13 is loaded, and
  the tag depends on the byte found there: with the same datagram the result is unknown
  or DTLS client hello according to memory that is not part of the datagram.
\<close>

theorem udp_reads_past_len:
  "13 \<in> set (snd (udp_get_message_type (bytes_at dtls_like_8) 8)) \<and>
   \<not> set (snd (udp_get_message_type (bytes_at dtls_like_8) 8)) \<subseteq> {0..<8} \<and>
   map (bytes_at dtls_like_8) [0..<8] = map (bytes_at dtls_like_8_then) [0..<8] \<and>
   fst (udp_get_message_type (bytes_at dtls_like_8) 8) = udp_msg_type_unknown \<and>
   fst (udp_get_message_type (bytes_at dtls_like_8_then) 8) = udp_msg_type_dtls_client_hello"
proof -
  have r: "snd (udp_get_message_type (bytes_at dtls_like_8) 8) =
             [0..<8] @ [0..<16] @ [0..<16] @ [0..<8] @ [0..<8] @ [0..<8] @ [0..<8]"
    by code_simp
  have "13 \<in> set (snd (udp_get_message_type (bytes_at dtls_like_8) 8))"
    unfolding r by simp
  moreover from this
  have "\<not> set (snd (udp_get_message_type (bytes_at dtls_like_8) 8)) \<subseteq> {0..<8}"
    by auto
  moreover have "map (bytes_at dtls_like_8) [0..<8] = map (bytes_at dtls_like_8_then) [0..<8]"
    by code_simp
  moreover have "fst (udp_get_message_type (bytes_at dtls_like_8) 8) = udp_msg_type_unknown"
    by code_simp
  moreover have "fst (udp_get_message_type (bytes_at dtls_like_8_then) 8)
                   = udp_msg_type_dtls_client_hello"
    by code_simp
  ultimately show ?thesis by blast
qed

section \<open>Properties of the MySQL greeting parser\<close>

subsection \<open>What the member initialisers consume\<close>

lemma encoded_snd: "snd (encoded w d le) = (if w \<le> datum_length d then skip w d else None)"
  by (cases d) (auto simp: encoded_def datum_length_def skip_def)

lemma datum_parse_snd: "snd (datum_parse d n) = (if n \<le> datum_length d then skip n d else None)"
  by (cases d) (auto simp: datum_parse_def datum_length_def skip_def)

lemma members_cursor:
  "snd (mysql_server_greet_members pkt) =
     (if 21 \<le> datum_length (cursor_after_version pkt)
      then skip 21 (cursor_after_version pkt) else None)"
proof (cases "snd (mysql_server_greet_head pkt)")
  case None
  then show ?thesis
    by (simp add: mysql_server_greet_members_def cursor_after_version_def case_prod_beta
        encoded_uint8_def encoded_uint16_def encoded_uint32_def encoded_snd datum_parse_snd
        datum_length_def skip_def)
next
  case (Some bs)
  then show ?thesis
    by (simp add: mysql_server_greet_members_def cursor_after_version_def case_prod_beta
        encoded_uint8_def encoded_uint16_def encoded_uint32_def encoded_snd datum_parse_snd
        datum_length_def skip_def) arith
qed

lemma members_version:
  "version (fst (mysql_server_greet_members pkt)) = snd (snd (snd (fst (mysql_server_greet_head pkt))))"
  by (simp add: mysql_server_greet_members_def case_prod_beta)

lemma members_defaults:
  "salt_2 (fst (mysql_server_greet_members pkt)) = None"
  "auth_plugin (fst (mysql_server_greet_members pkt)) = None"
  "mariadb_ext_cap (fst (mysql_server_greet_members pkt)) = 0"
  by (simp_all add: mysql_server_greet_members_def case_prod_beta)

lemma tail_version: "version (fst (mysql_server_greet_tail g p)) = version g"
  by (simp add: mysql_server_greet_tail_def case_prod_beta Let_def)

lemma body_version: "version (fst (mysql_server_greet_body g p)) = version g"
  by (simp add: mysql_server_greet_body_def case_prod_beta Let_def tail_version)

lemma body_bad_version:
  "datum_length (version g) < 6 \<or> last (datum_bytes (version g)) \<noteq> 0 \<Longrightarrow>
   mysql_server_greet_body g p = (g\<lparr>valid := False\<rparr>, p)"
  by (simp add: mysql_server_greet_body_def)

text \<open>
  C4, as the code has it. When the version string has fewer than 6 bytes or does not end
  in NUL (no NUL was found), the record is marked invalid and the constructor body returns
  at once: the reserved bytes, the MariaDB field, the second salt and the auth-plugin name
  are not consumed. The 21 bytes of thread id, \<^verbatim>\<open>salt_1\<close>, capability, collation, server
  status, extended capability and auth-plugin length have been consumed before the check,
  by the member initialisers (the cursor is null if fewer than 21 bytes follow the
  version).
\<close>

theorem mysql_bad_version_stops:
  assumes "mysql_server_greet pkt = (g, pkt')"
      and "datum_length (version g) < 6 \<or> last (datum_bytes (version g)) \<noteq> 0"
  shows "\<not> mysql_is_not_empty g \<and>
         pkt' = (if 21 \<le> datum_length (cursor_after_version pkt)
                 then skip 21 (cursor_after_version pkt) else None) \<and>
         mariadb_ext_cap g = 0 \<and> salt_2 g = None \<and> auth_plugin g = None"
proof -
  obtain g0 p0 where m: "mysql_server_greet_members pkt = (g0, p0)" by fastforce
  with assms(1) have b: "mysql_server_greet_body g0 p0 = (g, pkt')"
    by (simp add: mysql_server_greet_def)
  from b have "version g = version g0" using body_version [of g0 p0] by simp
  with assms(2) have "mysql_server_greet_body g0 p0 = (g0\<lparr>valid := False\<rparr>, p0)"
    by (simp add: body_bad_version)
  with b have g: "g = g0\<lparr>valid := False\<rparr>" and p: "pkt' = p0" by simp_all
  from m have "p0 = snd (mysql_server_greet_members pkt)" by simp
  with p have "pkt' = (if 21 \<le> datum_length (cursor_after_version pkt)
                 then skip 21 (cursor_after_version pkt) else None)"
    by (simp add: members_cursor)
  moreover from m g have "mariadb_ext_cap g = 0 \<and> salt_2 g = None \<and> auth_plugin g = None"
    using members_defaults [of pkt] by simp
  moreover from g have "\<not> mysql_is_not_empty g" by (simp add: mysql_is_not_empty_def)
  ultimately show ?thesis by simp
qed


theorem mysql_bad_version_stops_witness:
  "datum_length (version (fst (mysql_server_greet (Some mysql_short_version)))) < 6 \<and>
   \<not> mysql_is_not_empty (fst (mysql_server_greet (Some mysql_short_version))) \<and>
   21 \<le> datum_length (cursor_after_version (Some mysql_short_version)) \<and>
   snd (mysql_server_greet (Some mysql_short_version)) =
     skip 21 (cursor_after_version (Some mysql_short_version))"
proof -
  have h: "datum_length (version (fst (mysql_server_greet (Some mysql_short_version)))) < 6"
    by code_simp
  have l: "21 \<le> datum_length (cursor_after_version (Some mysql_short_version))"
    by code_simp
  have e: "mysql_server_greet (Some mysql_short_version) =
             (fst (mysql_server_greet (Some mysql_short_version)),
              snd (mysql_server_greet (Some mysql_short_version)))"
    by simp
  from mysql_bad_version_stops [OF e disjI1 [OF h]] h l show ?thesis by simp
qed

text \<open>
  C4, as stated: no field beyond the version string is consumed. It fails on the greeting
  with the 4-byte version \<open>5.7\<close>: 44 bytes follow the version, 23 are left after
  construction, and the thread id and the collation have been read.
\<close>

theorem mysql_bad_version_consumes_fields:
  "datum_length (version (fst (mysql_server_greet (Some mysql_short_version)))) < 6 \<and>
   snd (mysql_server_greet (Some mysql_short_version))
     \<noteq> cursor_after_version (Some mysql_short_version) \<and>
   datum_length (cursor_after_version (Some mysql_short_version)) = 44 \<and>
   datum_length (snd (mysql_server_greet (Some mysql_short_version))) = 23 \<and>
   thread_id (fst (mysql_server_greet (Some mysql_short_version))) = 11 \<and>
   collation (fst (mysql_server_greet (Some mysql_short_version))) = 8"
proof -
  have "datum_length (version (fst (mysql_server_greet (Some mysql_short_version)))) < 6"
    by code_simp
  moreover have "snd (mysql_server_greet (Some mysql_short_version))
     \<noteq> cursor_after_version (Some mysql_short_version)"
    by code_simp
  moreover have "datum_length (cursor_after_version (Some mysql_short_version)) = 44"
    by code_simp
  moreover have "datum_length (snd (mysql_server_greet (Some mysql_short_version))) = 23"
    by code_simp
  moreover have "thread_id (fst (mysql_server_greet (Some mysql_short_version))) = 11"
    by code_simp
  moreover have "collation (fst (mysql_server_greet (Some mysql_short_version))) = 8"
    by code_simp
  ultimately show ?thesis by blast
qed

subsection \<open>The MariaDB extended-capability field\<close>

lemma tail_keeps:
  "is_mariadb (fst (mysql_server_greet_tail g p)) = is_mariadb g"
  "mariadb_ext_cap (fst (mysql_server_greet_tail g p)) = mariadb_ext_cap g"
  by (simp_all add: mysql_server_greet_tail_def case_prod_beta Let_def)

lemma body_classified:
  assumes none: "is_mariadb g = None"
      and cls: "is_mariadb (fst (mysql_server_greet_body g p)) = Some md"
  shows "mariadb_ext_cap (fst (mysql_server_greet_body g p)) =
           (if md then fst (encoded_uint32 (skip 6 p) False) else mariadb_ext_cap g)"
proof (cases "datum_length (version g) < 6 \<or> last (datum_bytes (version g)) \<noteq> 0")
  case True
  with none cls show ?thesis by (simp add: mysql_server_greet_body_def)
next
  case good: False
  show ?thesis
  proof (cases "datum_bytes (version g) ! 0 < 0x35 \<and> auth_plugin_len g > 0")
    case True
    with good none cls show ?thesis by (simp add: mysql_server_greet_body_def Let_def)
  next
    case False
    with good cls show ?thesis
      by (cases "datum_bytes (version g) ! 0 < 0x34 \<or>
                 (datum_bytes (version g) ! 0 = 0x34 \<and> datum_bytes (version g) ! 2 < 0x31)";
          cases md)
         (auto simp add: mysql_server_greet_body_def Let_def case_prod_beta tail_keeps)
  qed
qed

lemma members_is_mariadb: "is_mariadb (fst (mysql_server_greet_members pkt)) = None"
  by (simp add: mysql_server_greet_members_def case_prod_beta)

lemma mysql_classified_mysql:
  "is_mariadb (fst (mysql_server_greet pkt)) = Some False \<Longrightarrow>
   mariadb_ext_cap (fst (mysql_server_greet pkt)) = 0"
  using body_classified [OF members_is_mariadb, of pkt "snd (mysql_server_greet_members pkt)" False]
  by (simp add: mysql_server_greet_def case_prod_beta members_defaults)

lemma encoded_uint32_big_endian:
  "encoded_uint32 (Some (b0 # b1 # b2 # b3 # bs)) False =
     (push_bit 24 (ucast b0) OR push_bit 16 (ucast b1) OR push_bit 8 (ucast b2) OR ucast b3,
      Some bs)"
  by (simp add: encoded_uint32_def encoded_def word_of_bytes_def push_bit_or or.assoc)

lemma mysql_classified_mariadb:
  "is_mariadb (fst (mysql_server_greet pkt)) = Some True \<Longrightarrow>
   mariadb_ext_cap (fst (mysql_server_greet pkt)) =
     fst (encoded_uint32 (skip 6 (snd (mysql_server_greet_members pkt))) False)"
  using body_classified [OF members_is_mariadb, of pkt "snd (mysql_server_greet_members pkt)" True]
  by (simp add: mysql_server_greet_def case_prod_beta)

text \<open>
  C1. The claim: for a greeting classified as MariaDB, the 4 bytes after the 6 reserved
  bytes are read as a little-endian integer. The code: \<^verbatim>\<open>encoded<uint32_t>{pkt}\<close> is
  built without the little-endian flag, so the bytes \<open>07 00 00 00\<close> give
  \<open>0x07000000\<close>, where the little-endian reading (the one the thread id gets) gives 7.
\<close>

theorem mariadb_ext_cap_byte_order:
  "mysql_is_not_empty (fst (mysql_server_greet (Some mariadb_greeting))) \<and>
   is_mariadb (fst (mysql_server_greet (Some mariadb_greeting))) = Some True \<and>
   take 4 (drop 6 (datum_bytes (snd (mysql_server_greet_members (Some mariadb_greeting)))))
     = [0x07, 0x00, 0x00, 0x00] \<and>
   mariadb_ext_cap (fst (mysql_server_greet (Some mariadb_greeting))) = 0x07000000 \<and>
   fst (encoded_uint32 (Some [0x07, 0x00, 0x00, 0x00]) True) = 7 \<and>
   thread_id (fst (mysql_server_greet (Some mariadb_greeting))) = 11"
proof -
  have "mysql_is_not_empty (fst (mysql_server_greet (Some mariadb_greeting)))"
    by code_simp
  moreover have "is_mariadb (fst (mysql_server_greet (Some mariadb_greeting))) = Some True"
    by code_simp
  moreover have
    "take 4 (drop 6 (datum_bytes (snd (mysql_server_greet_members (Some mariadb_greeting)))))
       = [0x07, 0x00, 0x00, 0x00]"
    by code_simp
  moreover have "mariadb_ext_cap (fst (mysql_server_greet (Some mariadb_greeting))) = 0x07000000"
    by code_simp
  moreover have "fst (encoded_uint32 (Some [0x07, 0x00, 0x00, 0x00]) True) = 7"
    by code_simp
  moreover have "thread_id (fst (mysql_server_greet (Some mariadb_greeting))) = 11"
    by code_simp
  ultimately show ?thesis by blast
qed


subsection \<open>The collation lookup\<close>

lemma print_flags_in_table:
  "\<forall>i\<in>set idx. i < length table \<Longrightarrow> \<exists>calls. print_flags table val idx = Inr calls"
proof (induction idx)
  case Nil
  then show ?case by simp
next
  case (Cons i idx)
  then obtain calls where "print_flags table val idx = Inr calls" by auto
  with Cons.prems show ?case by (simp add: array_read_def and_then_def)
qed

lemma capabilities_write_json_ok: "\<exists>calls. capabilities_write_json val m = Inr calls"
proof -
  have "\<forall>i\<in>set [0..<16]. i < length options" by (simp add: options_def)
  from print_flags_in_table [OF this, of val]
  obtain calls where "print_flags options val [0..<16] = Inr calls" by blast
  then show ?thesis by (simp add: capabilities_write_json_def and_then_def)
qed

lemma length_mysql_collations: "length mysql_collations = 272"
  by (simp add: mysql_collations_def)

lemma collation_nonzero_in_bounds:
  "c \<noteq> 0 \<Longrightarrow> \<exists>name. array_read mysql_collations (uint (c :: byte) - 1) = Inr name"
proof -
  assume "c \<noteq> 0"
  then have "0 < uint c" by (simp add: word_neq_0_conv word_less_def)
  moreover have "uint c < 256" using uint_bounded [of c] by simp
  ultimately show ?thesis by (simp add: array_read_def length_mysql_collations)
qed

lemma write_json_collation_0:
  assumes "valid g" and "collation g = 0"
  shows "write_json g m = Inl out_of_bounds_read"
proof -
  obtain calls where "capabilities_write_json (cap g) m = Inr calls"
    using capabilities_write_json_ok by blast
  with assms show ?thesis
    by (simp add: write_json_def and_then_def array_read_def)
qed

text \<open>
  C2. The claim: \<^verbatim>\<open>write_json\<close> validates the collation id before it indexes the table,
  so that an id of 0 reads nothing outside \<^verbatim>\<open>mysql_collations\<close>. The code: a valid
  greeting whose collation byte is 0 makes \<^verbatim>\<open>write_json\<close> read
  \<^verbatim>\<open>mysql_collations[-1]\<close>, with or without metadata.
\<close>

theorem collation_0_reads_out_of_bounds:
  "mysql_is_not_empty (fst (mysql_server_greet (Some mysql57_collation_0))) \<and>
   collation (fst (mysql_server_greet (Some mysql57_collation_0))) = 0 \<and>
   write_json (fst (mysql_server_greet (Some mysql57_collation_0))) True
     = Inl out_of_bounds_read \<and>
   write_json (fst (mysql_server_greet (Some mysql57_collation_0))) False
     = Inl out_of_bounds_read"
proof -
  have v: "mysql_is_not_empty (fst (mysql_server_greet (Some mysql57_collation_0)))"
    by code_simp
  have c: "collation (fst (mysql_server_greet (Some mysql57_collation_0))) = 0"
    by code_simp
  from v have "valid (fst (mysql_server_greet (Some mysql57_collation_0)))"
    by (simp add: mysql_is_not_empty_def)
  from write_json_collation_0 [OF this c] v c show ?thesis by simp
qed

subsection \<open>Truncated greetings\<close>

lemma tail_truncated_plugin:
  assumes "if_auth_plugin g = Some True" and "datum_length p < unat (auth_plugin_len g) + 1"
  shows "mysql_server_greet_tail g p = (g\<lparr>auth_plugin := None\<rparr>, None)"
  using assms
  by (cases p) (simp_all add: mysql_server_greet_tail_def datum_parse_def datum_length_def)

text \<open>
  C5. The claim: every truncated greeting reports \<^verbatim>\<open>is_not_empty() == false\<close>. The
  code: a MySQL 5.7 greeting that declares a 21-byte auth plugin, cut after the first 8
  bytes of the plugin name, nulls the cursor in the plugin read; the final check sees
  length 0 and the record stays valid.
\<close>

theorem truncated_plugin_name_accepted:
  "mysql57_plugin_cut = take 64 mysql57_plugin_greeting \<and>
   length mysql57_plugin_greeting = 78 \<and>
   mysql_is_not_empty (fst (mysql_server_greet (Some mysql57_plugin_greeting))) \<and>
   auth_plugin_len (fst (mysql_server_greet (Some mysql57_plugin_cut))) = 21 \<and>
   auth_plugin (fst (mysql_server_greet (Some mysql57_plugin_cut))) = None \<and>
   snd (mysql_server_greet (Some mysql57_plugin_cut)) = None \<and>
   mysql_is_not_empty (fst (mysql_server_greet (Some mysql57_plugin_cut)))"
proof -
  have "length mysql57_plugin_greeting = 78" by code_simp
  moreover have "mysql_is_not_empty (fst (mysql_server_greet (Some mysql57_plugin_greeting)))"
    by code_simp
  moreover have "auth_plugin_len (fst (mysql_server_greet (Some mysql57_plugin_cut))) = 21"
    by code_simp
  moreover have "auth_plugin (fst (mysql_server_greet (Some mysql57_plugin_cut))) = None"
    by code_simp
  moreover have "snd (mysql_server_greet (Some mysql57_plugin_cut)) = None"
    by code_simp
  moreover have "mysql_is_not_empty (fst (mysql_server_greet (Some mysql57_plugin_cut)))"
    by code_simp
  ultimately show ?thesis by (simp add: mysql57_plugin_cut_def)
qed

text \<open>The same happens when everything after the version string of a server older than
  4.1 is missing.\<close>

lemma truncated_after_version_accepted:
  "mysql_is_not_empty (fst (mysql_server_greet (Some mysql40_only_version))) \<and>
   snd (mysql_server_greet (Some mysql40_only_version)) = None"
  by code_simp

end
